theory Spec2Isabelle
  imports Complex_Main
begin

section \<open>Common conventions\<close>

text \<open>
  The C sources \<^verbatim>\<open>gta_grid.c\<close> and \<^verbatim>\<open>delaunay_tri.c\<close> are embedded
  function by function. The floating-point types \<^verbatim>\<open>real\<close> and \<^verbatim>\<open>dtreal\<close>
  are modelled by the real numbers: rounding is not modelled, and \<^verbatim>\<open>int\<close> is
  modelled by the integers. Whatever is undefined behaviour in C (a load or store outside
  an allocation, a null dereference, a float-to-int conversion of a value out of range)
  is a value of \<open>error\<close>; a loop of the form \<^verbatim>\<open>while(true)\<close> carries fuel.
\<close>

datatype error = OutOfBounds | NullDeref | BadCast | WildPointer | OutOfFuel

section \<open>The grid tessellator (gta\_grid.c)\<close>

type_synonym rvec = "real \<times> real \<times> real"

text \<open>The struct \<^verbatim>\<open>tessellated_grid\<close>; its fields are those the functions use.\<close>

record tessellated_grid =
  weights :: "real list"
  heightmap :: "int list"
  areas :: "real list"
  dimx :: int
  dimy :: int
  dimz :: int
  cell_width :: real
  minx :: real
  miny :: real
  minz :: real
  num_empty :: int
  surface_area :: real
  area_per_particle :: real

text \<open>The constants of \<^verbatim>\<open>float.h\<close> for IEEE single precision.\<close>

definition FLT_MAX :: real where
  "FLT_MAX = (2 - 1 / 2 ^ 23) * 2 ^ 127"

definition FLT_MIN :: real where
  "FLT_MIN = 1 / 2 ^ 126"

text \<open>
  The running minima and maxima of \<^verbatim>\<open>construct_grid\<close>:
  \<^verbatim>\<open>minx, miny, minz, maxx, maxy, maxz\<close>.
\<close>

record extent =
  lo_x :: real
  lo_y :: real
  lo_z :: real
  hi_x :: real
  hi_y :: real
  hi_z :: real

definition init_extent :: extent where
  "init_extent = \<lparr>lo_x = FLT_MAX, lo_y = FLT_MAX, lo_z = FLT_MAX,
                   hi_x = FLT_MIN, hi_y = FLT_MIN, hi_z = FLT_MIN\<rparr>"

text \<open>The body of the inner loop: six comparisons against one position.\<close>

definition scan_atom :: "rvec \<Rightarrow> extent \<Rightarrow> extent" where
  "scan_atom p e =
     (case p of (px, py, pz) \<Rightarrow>
        \<lparr>lo_x = (if px < lo_x e then px else lo_x e),
         lo_y = (if py < lo_y e then py else lo_y e),
         lo_z = (if pz < lo_z e then pz else lo_z e),
         hi_x = (if px > hi_x e then px else hi_x e),
         hi_y = (if py > hi_y e then py else hi_y e),
         hi_z = (if pz > hi_z e then pz else hi_z e)\<rparr>)"

definition scan_traj :: "rvec list list \<Rightarrow> nat \<Rightarrow> nat \<Rightarrow> extent" where
  "scan_traj x nframes natoms =
     fold (\<lambda>fr e. fold (\<lambda>a e'. scan_atom (x ! fr ! a) e') [0..<natoms] e)
          [0..<nframes] init_extent"

text \<open>The trajectory has \<open>nframes\<close> frames of \<open>natoms\<close> positions each.\<close>

definition traj_shape :: "rvec list list \<Rightarrow> nat \<Rightarrow> nat \<Rightarrow> bool" where
  "traj_shape x nframes natoms =
     (nframes \<le> length x \<and> list_all (\<lambda>fr. natoms \<le> length fr) (take nframes x))"

text \<open>
  The conversion \<^verbatim>\<open>(int)(d / cell_width)\<close>: truncation towards zero, undefined
  when the quotient does not fit an \<^verbatim>\<open>int\<close> (or the divisor is zero).
\<close>

definition int_cast :: "real \<Rightarrow> error + int" where
  "int_cast r =
     (if - (2 ^ 31) - 1 < r \<and> r < 2 ^ 31
      then Inr (if 0 \<le> r then \<lfloor>r\<rfloor> else \<lceil>r\<rceil>)
      else Inl BadCast)"

definition grid_dim :: "real \<Rightarrow> real \<Rightarrow> real \<Rightarrow> error + int" where
  "grid_dim hi lo cw =
     (if cw = 0 then Inl BadCast
      else case int_cast ((hi - lo) / cw) of
             Inl e \<Rightarrow> Inl e
           | Inr n \<Rightarrow> Inr (n + 2))"

text \<open>
  \<^verbatim>\<open>snew(ptr, n)\<close> is the allocation macro of the GROMACS library (\<^verbatim>\<open>smalloc.h\<close>):
  it allocates \<open>n\<close> elements and clears them.
\<close>

definition snew :: "int \<Rightarrow> 'a::zero list" where
  "snew n = replicate (nat n) 0"

definition construct_grid ::
  "rvec list list \<Rightarrow> int \<Rightarrow> int \<Rightarrow> real \<Rightarrow> tessellated_grid \<Rightarrow> error + tessellated_grid"
where
  "construct_grid x nframes natoms cw grid =
     (if \<not> traj_shape x (nat nframes) (nat natoms) then Inl OutOfBounds
      else
        let e = scan_traj x (nat nframes) (nat natoms) in
        case grid_dim (hi_x e) (lo_x e) cw of Inl err \<Rightarrow> Inl err | Inr dx \<Rightarrow>
        case grid_dim (hi_y e) (lo_y e) cw of Inl err \<Rightarrow> Inl err | Inr dy \<Rightarrow>
        case grid_dim (hi_z e) (lo_z e) cw of Inl err \<Rightarrow> Inl err | Inr dz \<Rightarrow>
          Inr (grid\<lparr>weights := snew (dx * dy * dz),
                    heightmap := snew (dx * dy),
                    areas := snew ((dx - 1) * (dy - 1)),
                    dimx := dx, dimy := dy, dimz := dz,
                    cell_width := cw,
                    minx := lo_x e, miny := lo_y e, minz := lo_z e\<rparr>))"

subsection \<open>Tessellation\<close>

text \<open>
  The vector helpers \<^verbatim>\<open>rvec_sub\<close>, \<^verbatim>\<open>cprod\<close> and \<^verbatim>\<open>norm\<close> come from
  the GROMACS header \<^verbatim>\<open>vec.h\<close>: difference, cross product and Euclidean length.
\<close>

definition rvec_sub :: "rvec \<Rightarrow> rvec \<Rightarrow> rvec" where
  "rvec_sub a b = (case a of (ax, ay, az) \<Rightarrow> case b of (bx, by, bz) \<Rightarrow>
     (ax - bx, ay - by, az - bz))"

definition cprod :: "rvec \<Rightarrow> rvec \<Rightarrow> rvec" where
  "cprod a b = (case a of (ax, ay, az) \<Rightarrow> case b of (bx, by, bz) \<Rightarrow>
     (ay * bz - az * by, az * bx - ax * bz, ax * by - ay * bx))"

definition rnorm :: "rvec \<Rightarrow> real" where
  "rnorm a = (case a of (ax, ay, az) \<Rightarrow> sqrt (ax * ax + ay * ay + az * az))"

text \<open>The area of one cell from its four corner heights, as lines 229 to 242 compute it.\<close>

definition cell_area :: "real \<Rightarrow> int \<Rightarrow> int \<Rightarrow> int \<Rightarrow> int \<Rightarrow> real" where
  "cell_area cw h0 h1 h2 h3 =
     (let c0 = (0, 0, of_int h0 * cw);
          c1 = (0, cw, of_int h1 * cw);
          c2 = (cw, 0, of_int h2 * cw);
          c3 = (cw, cw, of_int h3 * cw);
          ab = rvec_sub c1 c0;
          ac = rvec_sub c2 c0;
          ad = rvec_sub c3 c0
      in rnorm (cprod ab ad) / 2 + rnorm (cprod ad ac) / 2)"

text \<open>A load from the heightmap and a store into the areas array, with their bounds.\<close>

definition load :: "'a list \<Rightarrow> nat \<Rightarrow> error + 'a" where
  "load xs i = (if i < length xs then Inr (xs ! i) else Inl OutOfBounds)"

definition store :: "'a list \<Rightarrow> nat \<Rightarrow> 'a \<Rightarrow> error + 'a list" where
  "store xs i v = (if i < length xs then Inr (xs[i := v]) else Inl OutOfBounds)"

text \<open>
  The four corner loads of a cell, in the order of the short-circuit disjunction:
  \<open>Inr None\<close> when one of them is negative (the later ones are then not loaded),
  \<open>Inr (Some (h0, h1, h2, h3))\<close> otherwise.
\<close>

definition corners :: "int list \<Rightarrow> nat \<Rightarrow> nat \<Rightarrow> nat \<Rightarrow> error + (int \<times> int \<times> int \<times> int) option" where
  "corners hm dy x y =
     (case load hm (x * dy + y) of Inl e \<Rightarrow> Inl e | Inr h0 \<Rightarrow>
      if h0 < 0 then Inr None else
      case load hm (x * dy + y + 1) of Inl e \<Rightarrow> Inl e | Inr h1 \<Rightarrow>
      if h1 < 0 then Inr None else
      case load hm ((x + 1) * dy + y) of Inl e \<Rightarrow> Inl e | Inr h2 \<Rightarrow>
      if h2 < 0 then Inr None else
      case load hm ((x + 1) * dy + y + 1) of Inl e \<Rightarrow> Inl e | Inr h3 \<Rightarrow>
      if h3 < 0 then Inr None else Inr (Some (h0, h1, h2, h3)))"

text \<open>
  The body of the inner loop for the cell \<open>(x, y)\<close>. The state is the areas array and
  \<^verbatim>\<open>tot_area\<close>. A cell with a negative corner stores zero at \<open>x * dimy + y\<close>; the
  other cells store their area at \<open>x * (dimy - 1) + y\<close>.
\<close>

definition tess_cell ::
  "int list \<Rightarrow> real \<Rightarrow> nat \<Rightarrow> nat \<Rightarrow> nat \<Rightarrow> real list \<times> real \<Rightarrow> error + (real list \<times> real)"
where
  "tess_cell hm cw dy x y s =
     (let ar = fst s; tot = snd s in
      case corners hm dy x y of
        Inl e \<Rightarrow> Inl e
      | Inr None \<Rightarrow> map_sum id (\<lambda>ar'. (ar', tot)) (store ar (x * dy + y) 0)
      | Inr (Some (h0, h1, h2, h3)) \<Rightarrow>
          (let a = cell_area cw h0 h1 h2 h3 in
           map_sum id (\<lambda>ar'. (ar', tot + a)) (store ar (x * (dy - 1) + y) a)))"

text \<open>The inner loop over \<open>y\<close> and the outer loop over \<open>x\<close>, as recursion on the
  list of the remaining loop indices.\<close>

fun tess_row ::
  "int list \<Rightarrow> real \<Rightarrow> nat \<Rightarrow> nat \<Rightarrow> nat list \<Rightarrow> real list \<times> real \<Rightarrow> error + (real list \<times> real)"
where
  "tess_row hm cw dy x [] s = Inr s"
| "tess_row hm cw dy x (y # ys) s =
     (case tess_cell hm cw dy x y s of
        Inl e \<Rightarrow> Inl e
      | Inr s' \<Rightarrow> tess_row hm cw dy x ys s')"

fun tess_rows ::
  "int list \<Rightarrow> real \<Rightarrow> nat \<Rightarrow> nat list \<Rightarrow> real list \<times> real \<Rightarrow> error + (real list \<times> real)"
where
  "tess_rows hm cw dy [] s = Inr s"
| "tess_rows hm cw dy (x # xs) s =
     (case tess_row hm cw dy x [0..<dy - 1] s of
        Inl e \<Rightarrow> Inl e
      | Inr s' \<Rightarrow> tess_rows hm cw dy xs s')"

definition tessellate_grid :: "tessellated_grid \<Rightarrow> error + tessellated_grid" where
  "tessellate_grid grid =
     (case tess_rows (heightmap grid) (cell_width grid) (nat (dimy grid))
             [0..<nat (dimx grid) - 1] (areas grid, 0) of
        Inl e \<Rightarrow> Inl e
      | Inr (ar, tot) \<Rightarrow> Inr (grid\<lparr>areas := ar, surface_area := tot\<rparr>))"


section \<open>The Delaunay triangulator (delaunay\_tri.c)\<close>

subsection \<open>Geometric predicates\<close>

type_synonym point = "real \<times> real"

text \<open>
  Modelled from the spec: \<^verbatim>\<open>orient2d\<close> and \<^verbatim>\<open>incircle\<close> belong to the
  exact-arithmetic predicate library, which is not among the sources. The spec gives their
  contract: the sign of \<open>orient2d a b c\<close> is positive iff \<open>a, b, c\<close> are counterclockwise,
  and the sign of \<open>incircle a b c d\<close> is positive iff \<open>d\<close> lies strictly inside the
  circumcircle of the counterclockwise triangle \<open>a, b, c\<close>. They are the two determinants.
\<close>

definition orient2d :: "point \<Rightarrow> point \<Rightarrow> point \<Rightarrow> real" where
  "orient2d a b c =
     (fst a - fst c) * (snd b - snd c) - (snd a - snd c) * (fst b - fst c)"

definition incircle :: "point \<Rightarrow> point \<Rightarrow> point \<Rightarrow> point \<Rightarrow> real" where
  "incircle a b c d =
     (let adx = fst a - fst d; ady = snd a - snd d;
          bdx = fst b - fst d; bdy = snd b - snd d;
          cdx = fst c - fst d; cdy = snd c - snd d;
          alift = adx * adx + ady * ady;
          blift = bdx * bdx + bdy * bdy;
          clift = cdx * cdx + cdy * cdy
      in adx * (bdy * clift - blift * cdy)
         - ady * (bdx * clift - blift * cdx)
         + alift * (bdx * cdy - bdy * cdx))"

text \<open>
  A vertex pointer \<^verbatim>\<open>struct vert *\<close> into the array \<open>v\<close> is the position of the
  vertex in that array; \<open>None\<close> is the null pointer. \<open>P ! i\<close> are the coordinates
  \<^verbatim>\<open>v[i].coord\<close> points to.
\<close>

type_synonym vert = nat

definition ccw :: "point list \<Rightarrow> vert \<Rightarrow> vert \<Rightarrow> vert \<Rightarrow> bool" where
  "ccw P a b c = (orient2d (P ! a) (P ! b) (P ! c) > 0)"

definition rightOf :: "point list \<Rightarrow> vert \<Rightarrow> vert \<Rightarrow> vert \<Rightarrow> bool" where
  "rightOf P x ea eb = ccw P x eb ea"

definition leftOf :: "point list \<Rightarrow> vert \<Rightarrow> vert \<Rightarrow> vert \<Rightarrow> bool" where
  "leftOf P x ea eb = ccw P x ea eb"

definition inCircle :: "point list \<Rightarrow> vert \<Rightarrow> vert \<Rightarrow> vert \<Rightarrow> vert \<Rightarrow> bool" where
  "inCircle P a b c d = (incircle (P ! a) (P ! b) (P ! c) (P ! d) > 0)"

subsection \<open>The adjacency store\<close>

text \<open>
  The circular doubly-linked list \<^verbatim>\<open>v[i].adj\<close> is the list of the vertices its nodes
  hold, read from the node \<^verbatim>\<open>v[i].adj\<close> along \<^verbatim>\<open>next\<close>; the empty list is the
  null pointer. \<^verbatim>\<open>prev\<close> of the head is the last element, \<^verbatim>\<open>next\<close> of the last
  element is the head.
\<close>

type_synonym ring = "vert list"
type_synonym adjacency = "ring list"

text \<open>
  \<^verbatim>\<open>insertNode\<close> on the ring of \<open>parent\<close>. In the first branch the loop walks
  \<^verbatim>\<open>prev\<close> from the last node while the node is not the head and \<open>inn\<close> is right
  of it: \<open>skipped\<close> are the nodes it passes, \<open>kept\<close> the others, and the loop stops at
  the head iff \<open>kept\<close> is empty. In the second branch the loop walks \<^verbatim>\<open>next\<close>
  from the second node in the same way and stops at \<open>cur\<close>, the head iff \<open>kept\<close> is
  empty.
\<close>

definition insert_ring :: "point list \<Rightarrow> vert \<Rightarrow> vert \<Rightarrow> ring \<Rightarrow> ring" where
  "insert_ring P parent inn r =
     (case r of
        [] \<Rightarrow> [inn]
      | f # rest \<Rightarrow>
          if rightOf P inn parent f then
            (let skipped = takeWhile (\<lambda>c. rightOf P inn parent c) (rev rest);
                 kept = dropWhile (\<lambda>c. rightOf P inn parent c) (rev rest)
             in if kept = [] then inn # f # rest
                else f # rev kept @ inn # rev skipped)
          else
            (let skipped = takeWhile (\<lambda>c. leftOf P inn parent c) rest;
                 kept = dropWhile (\<lambda>c. leftOf P inn parent c) rest;
                 cur = (case kept of [] \<Rightarrow> f | c # _ \<Rightarrow> c)
             in if cur = inn then f # rest
                else f # skipped @ inn # kept))"

definition insertNode :: "point list \<Rightarrow> adjacency \<Rightarrow> vert \<Rightarrow> vert \<Rightarrow> adjacency" where
  "insertNode P A parent inn = A[parent := insert_ring P parent inn (A ! parent)]"

text \<open>
  \<^verbatim>\<open>deleteNode\<close> unlinks the first node, from the head along \<^verbatim>\<open>next\<close>, that
  holds \<open>child\<close>; when that node is the head, the head moves to its successor.
\<close>

definition deleteNode :: "adjacency \<Rightarrow> vert \<Rightarrow> vert \<Rightarrow> adjacency" where
  "deleteNode A parent child = A[parent := remove1 child (A ! parent)]"

definition connectVerts :: "point list \<Rightarrow> adjacency \<Rightarrow> vert option \<Rightarrow> vert option \<Rightarrow> adjacency" where
  "connectVerts P A a b =
     (case a of None \<Rightarrow> A | Some a' \<Rightarrow>
      case b of None \<Rightarrow> A | Some b' \<Rightarrow>
        if a' \<noteq> b' then insertNode P (insertNode P A a' b') b' a' else A)"

definition cutVerts :: "adjacency \<Rightarrow> vert option \<Rightarrow> vert option \<Rightarrow> adjacency" where
  "cutVerts A a b =
     (case a of None \<Rightarrow> A | Some a' \<Rightarrow>
      case b of None \<Rightarrow> A | Some b' \<Rightarrow>
        if a' \<noteq> b' then deleteNode (deleteNode A a' b') b' a' else A)"

definition first :: "adjacency \<Rightarrow> vert option \<Rightarrow> vert option" where
  "first A vi =
     (case vi of None \<Rightarrow> None
      | Some i \<Rightarrow> (case A ! i of [] \<Rightarrow> None | f # _ \<Rightarrow> Some f))"

text \<open>
  \<open>follow h xs vj\<close>: the element after the first occurrence of \<open>vj\<close> in \<open>xs\<close>, the
  element after the last one being \<open>h\<close>. \<^verbatim>\<open>succ\<close> visits the ring from the head along
  \<^verbatim>\<open>next\<close>, \<^verbatim>\<open>pred\<close> from the head along \<^verbatim>\<open>prev\<close>.
\<close>

fun follow :: "vert \<Rightarrow> ring \<Rightarrow> vert \<Rightarrow> vert option" where
  "follow h [] vj = None"
| "follow h [x] vj = (if x = vj then Some h else None)"
| "follow h (x # y # ys) vj = (if x = vj then Some y else follow h (y # ys) vj)"

definition pred :: "adjacency \<Rightarrow> vert option \<Rightarrow> vert option \<Rightarrow> vert option" where
  "pred A vi vj =
     (case vi of None \<Rightarrow> None | Some i \<Rightarrow>
      case vj of None \<Rightarrow> None | Some j \<Rightarrow>
        (case A ! i of [] \<Rightarrow> None | f # rest \<Rightarrow> follow f (f # rev rest) j))"

definition succ :: "adjacency \<Rightarrow> vert option \<Rightarrow> vert option \<Rightarrow> vert option" where
  "succ A vi vj =
     (case vi of None \<Rightarrow> None | Some i \<Rightarrow>
      case vj of None \<Rightarrow> None | Some j \<Rightarrow>
        (case A ! i of [] \<Rightarrow> None | f # rest \<Rightarrow> follow f (f # rest) j))"

subsection \<open>Predicates on possibly null pointers\<close>

text \<open>The merge passes the results of \<^verbatim>\<open>pred\<close> and \<^verbatim>\<open>succ\<close> to the predicates
  unchecked; a null argument is dereferenced there.\<close>

definition ccwN :: "point list \<Rightarrow> vert option \<Rightarrow> vert option \<Rightarrow> vert option \<Rightarrow> error + bool" where
  "ccwN P a b c =
     (case a of None \<Rightarrow> Inl NullDeref | Some a' \<Rightarrow>
      case b of None \<Rightarrow> Inl NullDeref | Some b' \<Rightarrow>
      case c of None \<Rightarrow> Inl NullDeref | Some c' \<Rightarrow> Inr (ccw P a' b' c'))"

definition rightOfN :: "point list \<Rightarrow> vert option \<Rightarrow> vert option \<Rightarrow> vert option \<Rightarrow> error + bool" where
  "rightOfN P x ea eb = ccwN P x eb ea"

definition leftOfN :: "point list \<Rightarrow> vert option \<Rightarrow> vert option \<Rightarrow> vert option \<Rightarrow> error + bool" where
  "leftOfN P x ea eb = ccwN P x ea eb"

definition inCircleN ::
  "point list \<Rightarrow> vert option \<Rightarrow> vert option \<Rightarrow> vert option \<Rightarrow> vert option \<Rightarrow> error + bool" where
  "inCircleN P a b c d =
     (case a of None \<Rightarrow> Inl NullDeref | Some a' \<Rightarrow>
      case b of None \<Rightarrow> Inl NullDeref | Some b' \<Rightarrow>
      case c of None \<Rightarrow> Inl NullDeref | Some c' \<Rightarrow>
      case d of None \<Rightarrow> Inl NullDeref | Some d' \<Rightarrow> Inr (inCircle P a' b' c' d'))"

subsection \<open>Common tangents\<close>

text \<open>The loop of \<^verbatim>\<open>lct\<close>; the state is \<open>x, y, rfast, lfast\<close>.\<close>

fun lct_loop ::
  "nat \<Rightarrow> point list \<Rightarrow> adjacency \<Rightarrow> vert option \<Rightarrow> vert option \<Rightarrow> vert option \<Rightarrow> vert option
   \<Rightarrow> error + (vert option \<times> vert option)"
where
  "lct_loop 0 P A x y rfast lfast = Inl OutOfFuel"
| "lct_loop (Suc n) P A x y rfast lfast =
     (case (if rfast = None then Inr False else rightOfN P rfast x y) of
        Inl e \<Rightarrow> Inl e
      | Inr True \<Rightarrow> lct_loop n P A x rfast (succ A rfast y) lfast
      | Inr False \<Rightarrow>
          (case (if lfast = None then Inr False else rightOfN P lfast x y) of
             Inl e \<Rightarrow> Inl e
           | Inr True \<Rightarrow> lct_loop n P A lfast y rfast (pred A lfast x)
           | Inr False \<Rightarrow> Inr (x, y)))"

definition lct ::
  "nat \<Rightarrow> point list \<Rightarrow> adjacency \<Rightarrow> vert option \<Rightarrow> vert option \<Rightarrow> error + (vert option \<times> vert option)"
where
  "lct n P A lrightmost rleftmost =
     (let x = lrightmost; y = rleftmost;
          rfast = first A y;
          fx = first A x;
          lfast = (if fx \<noteq> None then pred A x fx else None)
      in lct_loop n P A x y rfast lfast)"

fun uct_loop ::
  "nat \<Rightarrow> point list \<Rightarrow> adjacency \<Rightarrow> vert option \<Rightarrow> vert option \<Rightarrow> vert option \<Rightarrow> vert option
   \<Rightarrow> error + (vert option \<times> vert option)"
where
  "uct_loop 0 P A x y rfast lfast = Inl OutOfFuel"
| "uct_loop (Suc n) P A x y rfast lfast =
     (case (if rfast = None then Inr False else leftOfN P rfast x y) of
        Inl e \<Rightarrow> Inl e
      | Inr True \<Rightarrow> uct_loop n P A x rfast (pred A rfast y) lfast
      | Inr False \<Rightarrow>
          (case (if lfast = None then Inr False else leftOfN P lfast x y) of
             Inl e \<Rightarrow> Inl e
           | Inr True \<Rightarrow> uct_loop n P A lfast y rfast (succ A lfast x)
           | Inr False \<Rightarrow> Inr (x, y)))"

definition uct ::
  "nat \<Rightarrow> point list \<Rightarrow> adjacency \<Rightarrow> vert option \<Rightarrow> vert option \<Rightarrow> error + (vert option \<times> vert option)"
where
  "uct n P A lrightmost rleftmost =
     (let x = lrightmost; y = rleftmost;
          lfast = first A x;
          fy = first A y;
          rfast = (if fy \<noteq> None then pred A y (first A y) else None)
      in uct_loop n P A x y rfast lfast)"


subsection \<open>Divide and conquer\<close>

text \<open>
  The two inner loops of the merge. The first is
  \<^verbatim>\<open>while(inCircle(r1, li, ri, r2)) { cutVerts(ri, r1); r1 = r2; r2 = pred(ri, r1); }\<close>
  and returns the adjacency and the final \<open>r1\<close>; the second is its mirror image on the
  left.
\<close>

fun rcut_loop ::
  "nat \<Rightarrow> point list \<Rightarrow> adjacency \<Rightarrow> vert option \<Rightarrow> vert option \<Rightarrow> vert option \<Rightarrow> vert option
   \<Rightarrow> error + (adjacency \<times> vert option)"
where
  "rcut_loop 0 P A li ri r1 r2 = Inl OutOfFuel"
| "rcut_loop (Suc n) P A li ri r1 r2 =
     (case inCircleN P r1 li ri r2 of
        Inl e \<Rightarrow> Inl e
      | Inr True \<Rightarrow>
          (let A' = cutVerts A ri r1
           in rcut_loop n P A' li ri r2 (pred A' ri r2))
      | Inr False \<Rightarrow> Inr (A, r1))"

fun lcut_loop ::
  "nat \<Rightarrow> point list \<Rightarrow> adjacency \<Rightarrow> vert option \<Rightarrow> vert option \<Rightarrow> vert option \<Rightarrow> vert option
   \<Rightarrow> error + (adjacency \<times> vert option)"
where
  "lcut_loop 0 P A li ri l1 l2 = Inl OutOfFuel"
| "lcut_loop (Suc n) P A li ri l1 l2 =
     (case inCircleN P li ri l1 l2 of
        Inl e \<Rightarrow> Inl e
      | Inr True \<Rightarrow>
          (let A' = cutVerts A li l1
           in lcut_loop n P A' li ri l2 (succ A' li l2))
      | Inr False \<Rightarrow> Inr (A, l1))"

text \<open>
  One pass of the body of \<^verbatim>\<open>while(li != uctl || ri != uctr)\<close>: the adjacency after
  the pass and the new \<open>li\<close> and \<open>ri\<close>. The flags \<open>a\<close> and \<open>b\<close> of the source are
  the negations of the two tests.
\<close>

definition merge_step ::
  "nat \<Rightarrow> point list \<Rightarrow> adjacency \<Rightarrow> vert option \<Rightarrow> vert option
   \<Rightarrow> error + (adjacency \<times> vert option \<times> vert option)"
where
  "merge_step n P A li ri =
     (let A1 = connectVerts P A li ri;
          r1 = pred A1 ri li
      in case leftOfN P r1 li ri of Inl e \<Rightarrow> Inl e | Inr rvalid \<Rightarrow>
         (case (if rvalid then rcut_loop n P A1 li ri r1 (pred A1 ri r1) else Inr (A1, r1)) of
            Inl e \<Rightarrow> Inl e
          | Inr (A2, r1') \<Rightarrow>
             (let l1 = succ A2 li ri
              in case rightOfN P l1 ri li of Inl e \<Rightarrow> Inl e | Inr lvalid \<Rightarrow>
                 (case (if lvalid then lcut_loop n P A2 li ri l1 (succ A2 li l1) else Inr (A2, l1)) of
                    Inl e \<Rightarrow> Inl e
                  | Inr (A3, l1') \<Rightarrow>
                      if \<not> rvalid then Inr (A3, l1', ri)
                      else if \<not> lvalid then Inr (A3, li, r1')
                      else (case inCircleN P li ri r1' l1' of
                              Inl e \<Rightarrow> Inl e
                            | Inr c \<Rightarrow> if \<not> c then Inr (A3, li, r1') else Inr (A3, l1', ri))))))"

fun merge_loop ::
  "nat \<Rightarrow> point list \<Rightarrow> adjacency \<Rightarrow> vert option \<Rightarrow> vert option \<Rightarrow> vert option \<Rightarrow> vert option
   \<Rightarrow> error + adjacency"
where
  "merge_loop 0 P A li ri uctl uctr = Inl OutOfFuel"
| "merge_loop (Suc n) P A li ri uctl uctr =
     (if li \<noteq> uctl \<or> ri \<noteq> uctr then
        (case merge_step n P A li ri of
           Inl e \<Rightarrow> Inl e
         | Inr (A', li', ri') \<Rightarrow> merge_loop n P A' li' ri' uctl uctr)
      else Inr A)"

text \<open>
  \<^verbatim>\<open>ord_dtriangulate(v, ia, ib, &leftmost, &rightmost)\<close>: the adjacency after the call
  and the two pointers it assigns (\<open>None\<close> where it assigns neither, for fewer than two
  points). \<open>n\<close> is the fuel of each loop.
\<close>

function ord_dtriangulate ::
  "nat \<Rightarrow> point list \<Rightarrow> adjacency \<Rightarrow> nat \<Rightarrow> nat
   \<Rightarrow> error + (adjacency \<times> vert option \<times> vert option)"
where
  "ord_dtriangulate n P A ia ib =
     (if ib - ia = 1 then
        Inr (connectVerts P A (Some ia) (Some ib), Some ia, Some ib)
      else if ib - ia = 2 then
        (let A1 = connectVerts P A (Some ia) (Some (ia + 1));
             A2 = connectVerts P A1 (Some (ia + 1)) (Some ib);
             A3 = (if ccw P ia (ia + 1) ib \<or> ccw P ia ib (ia + 1)
                   then connectVerts P A2 (Some ia) (Some ib) else A2)
         in Inr (A3, Some ia, Some ib))
      else if ib - ia \<ge> 3 then
        (let mid = (ia + ib) div 2
         in case ord_dtriangulate n P A ia mid of Inl e \<Rightarrow> Inl e | Inr (A1, lo, li) \<Rightarrow>
            (case ord_dtriangulate n P A1 (mid + 1) ib of Inl e \<Rightarrow> Inl e | Inr (A2, ri, ro) \<Rightarrow>
            (case lct n P A2 li ri of Inl e \<Rightarrow> Inl e | Inr (lctl, lctr) \<Rightarrow>
            (case uct n P A2 li ri of Inl e \<Rightarrow> Inl e | Inr (uctl, uctr) \<Rightarrow>
            (case merge_loop n P A2 lctl lctr uctl uctr of Inl e \<Rightarrow> Inl e | Inr A3 \<Rightarrow>
               Inr (connectVerts P A3 uctl uctr, lo, ro))))))
      else Inr (A, None, None))"
  by pat_completeness auto
termination
  by (relation "measure (\<lambda>(n, P, A, ia, ib). ib - ia)") auto

subsection \<open>Triangle extraction\<close>

text \<open>
  The triples the loop over the ring of \<open>v[i]\<close> writes: for the node at position \<open>j\<close>
  and its successor, when both still have neighbours, unless the successor is the head
  and the node is not right of the edge (the \<^verbatim>\<open>break\<close>, which can only be taken at
  the last node).
\<close>

definition ring_tris :: "point list \<Rightarrow> adjacency \<Rightarrow> vert \<Rightarrow> (vert \<times> vert \<times> vert) list" where
  "ring_tris P A i =
     (let r = A ! i; k = length r
      in if 2 \<le> k then
           concat (map (\<lambda>j.
             let vn = r ! j; nx = r ! ((j + 1) mod k)
             in if A ! vn \<noteq> [] \<and> A ! nx \<noteq> []
                   \<and> \<not> ((j + 1) mod k = 0 \<and> \<not> rightOf P vn i nx)
                then [(i, vn, nx)] else []) [0..<k])
         else [])"

text \<open>
  The loop over the vertices. \<open>idx\<close> gives \<^verbatim>\<open>INDEX\<close> of each vertex, \<open>cap\<close> is the
  number of \<^verbatim>\<open>int\<close>s allocated for the triangle array, \<open>acc\<close> the triangles written
  so far.
\<close>

fun conv_loop ::
  "point list \<Rightarrow> nat list \<Rightarrow> nat \<Rightarrow> adjacency \<Rightarrow> vert list \<Rightarrow> (nat \<times> nat \<times> nat) list
   \<Rightarrow> error + (nat \<times> nat \<times> nat) list"
where
  "conv_loop P idx cap A [] acc = Inr acc"
| "conv_loop P idx cap A (i # is) acc =
     (let new = map (\<lambda>(a, b, c). (idx ! a, idx ! b, idx ! c)) (ring_tris P A i);
          acc' = acc @ new
      in if 3 * length acc' > cap then Inl OutOfBounds
         else conv_loop P idx cap (A[i := []]) is acc')"

definition convertTrisFreeAdj ::
  "point list \<Rightarrow> nat list \<Rightarrow> adjacency \<Rightarrow> nat \<Rightarrow> error + (nat \<times> nat \<times> nat) list"
where
  "convertTrisFreeAdj P idx A nv =
     conv_loop P idx (3 * (2 * (nv - 1) - 2)) A [0..<nv] []"

subsection \<open>The entry point\<close>

text \<open>
  The struct \<^verbatim>\<open>dTriangulation\<close>; its fields are those \<^verbatim>\<open>dtriangulate\<close> uses.
\<close>

record dTriangulation =
  points :: "real list"
  npoints :: int
  nverts :: int
  triangles :: "int list"
  ntriangles :: int

datatype diagnostic = TooFewPoints int | TooFewUnique int

definition DTEPSILON :: real where
  "DTEPSILON = 1 / 10 ^ 12"

definition pt :: "real list \<Rightarrow> nat \<Rightarrow> point" where
  "pt ps j = (ps ! (2 * j), ps ! (2 * j + 1))"

definition compareVerts :: "point \<Rightarrow> point \<Rightarrow> int" where
  "compareVerts a b =
     (let diff = fst a - fst b;
          diff' = (if diff < DTEPSILON \<and> diff > - DTEPSILON then snd a - snd b else diff)
      in 1 - 2 * (if diff' < 0 then 1 else 0))"

text \<open>
  \<^verbatim>\<open>qsort\<close> is the C library's. It is modelled by insertion sort on the indices of
  the points, with \<^verbatim>\<open>compareVerts\<close> as the order; where \<^verbatim>\<open>compareVerts\<close> is a strict
  total order on the input, every sorting algorithm returns this array.
\<close>

fun qsort_insert :: "(nat \<Rightarrow> point) \<Rightarrow> nat \<Rightarrow> nat list \<Rightarrow> nat list" where
  "qsort_insert c x [] = [x]"
| "qsort_insert c x (y # ys) =
     (if compareVerts (c x) (c y) < 0 then x # y # ys else y # qsort_insert c x ys)"

definition qsort_verts :: "(nat \<Rightarrow> point) \<Rightarrow> nat list \<Rightarrow> nat list" where
  "qsort_verts c js = fold (qsort_insert c) js []"

text \<open>
  The array \<open>v\<close> as bytes, for \<^verbatim>\<open>memmove\<close>: on a little-endian machine with 64-bit
  pointers a \<^verbatim>\<open>struct vert\<close> is 16 bytes, the pointer \<^verbatim>\<open>coord\<close> then the pointer
  \<^verbatim>\<open>adj\<close>, and point \<open>j\<close> lies at \<open>base + 16 * j\<close>, \<open>base\<close> being the address
  \<^verbatim>\<open>tri->points\<close>.
\<close>

definition ptr_bytes :: "int \<Rightarrow> int list" where
  "ptr_bytes p = map (\<lambda>k. (p div 256 ^ k) mod 256) [0..<8]"

definition bytes_ptr :: "int list \<Rightarrow> int" where
  "bytes_ptr bs = foldr (\<lambda>b acc. b + 256 * acc) bs 0"

definition vert_bytes :: "int \<Rightarrow> int list" where
  "vert_bytes coord = ptr_bytes coord @ replicate 8 0"

definition read_coord :: "int list \<Rightarrow> nat \<Rightarrow> int" where
  "read_coord mem i = bytes_ptr (take 8 (drop (16 * i) mem))"

definition read_adj :: "int list \<Rightarrow> nat \<Rightarrow> int" where
  "read_adj mem i = bytes_ptr (take 8 (drop (16 * i + 8) mem))"

text \<open>The index of the point a \<^verbatim>\<open>coord\<close> pointer points to, if it points to one.\<close>

definition point_index :: "int \<Rightarrow> nat \<Rightarrow> int \<Rightarrow> error + nat" where
  "point_index base n p =
     (if base \<le> p \<and> (p - base) mod 16 = 0 \<and> (p - base) div 16 < int n
      then Inr (nat ((p - base) div 16)) else Inl WildPointer)"

text \<open>\<^verbatim>\<open>memmove(dst, src, n)\<close> within the array, offsets and length in bytes.\<close>

definition memmove :: "int list \<Rightarrow> nat \<Rightarrow> nat \<Rightarrow> nat \<Rightarrow> error + int list" where
  "memmove mem dst src n =
     (if src + n \<le> length mem \<and> dst + n \<le> length mem
      then Inr (take dst mem @ take n (drop src mem) @ drop (dst + n) mem)
      else Inl OutOfBounds)"

text \<open>
  The duplicate-removal loop \<^verbatim>\<open>for(int i = 1; i < tri->nverts; )\<close>; the state is the
  array, \<open>nverts\<close> and \<open>i\<close>. The third argument of \<^verbatim>\<open>memmove\<close> is
  \<open>nverts - i + 1\<close>, a number of bytes.
\<close>

function dedup_loop ::
  "int \<Rightarrow> real list \<Rightarrow> nat \<Rightarrow> int list \<Rightarrow> nat \<Rightarrow> nat \<Rightarrow> error + (int list \<times> nat)"
where
  "dedup_loop base ps n mem nv i =
     (if i < nv then
        (case point_index base n (read_coord mem i) of Inl e \<Rightarrow> Inl e | Inr j \<Rightarrow>
         (case point_index base n (read_coord mem (i - 1)) of Inl e \<Rightarrow> Inl e | Inr j' \<Rightarrow>
          (let diffx = fst (pt ps j) - fst (pt ps j');
               diffy = snd (pt ps j) - snd (pt ps j')
           in if diffx < DTEPSILON \<and> diffx > - DTEPSILON
                 \<and> diffy < DTEPSILON \<and> diffy > - DTEPSILON
              then (case memmove mem (16 * i) (16 * (i + 1)) (nv - i + 1) of
                      Inl e \<Rightarrow> Inl e
                    | Inr mem' \<Rightarrow> dedup_loop base ps n mem' (nv - 1) i)
              else dedup_loop base ps n mem nv (i + 1))))
      else Inr (mem, nv))"
  by pat_completeness auto
termination
  by (relation "measure (\<lambda>(base, ps, n, mem, nv, i). nv - i)") auto

text \<open>The vertices \<open>v[0..nv-1]\<close> read back from the array: the index of the point of each.\<close>

fun decode_verts :: "int \<Rightarrow> nat \<Rightarrow> int list \<Rightarrow> nat list \<Rightarrow> error + nat list" where
  "decode_verts base n mem [] = Inr []"
| "decode_verts base n mem (i # is) =
     (case point_index base n (read_coord mem i) of Inl e \<Rightarrow> Inl e | Inr j \<Rightarrow>
      if read_adj mem i \<noteq> 0 then Inl WildPointer
      else (case decode_verts base n mem is of Inl e \<Rightarrow> Inl e | Inr js \<Rightarrow> Inr (j # js)))"

text \<open>
  \<^verbatim>\<open>dtriangulate\<close>: the diagnostics written to \<^verbatim>\<open>stderr\<close> and the structure on
  return. \<open>fuel\<close> bounds each loop of the triangulation, \<open>base\<close> is the address
  \<^verbatim>\<open>tri->points\<close>.
\<close>

definition dtriangulate ::
  "nat \<Rightarrow> int \<Rightarrow> dTriangulation \<Rightarrow> error + (diagnostic list \<times> dTriangulation)"
where
  "dtriangulate fuel base tri =
     (if npoints tri < 2 then Inr ([TooFewPoints (npoints tri)], tri)
      else
        let n = nat (npoints tri) in
        if length (points tri) < 2 * n then Inl OutOfBounds
        else
          let order = qsort_verts (pt (points tri)) [0..<n];
              mem = concat (map (\<lambda>j. vert_bytes (base + 16 * int j)) order)
          in case dedup_loop base (points tri) n mem n 1 of
               Inl e \<Rightarrow> Inl e
             | Inr (mem', nv) \<Rightarrow>
                 (let tri1 = tri\<lparr>nverts := int nv\<rparr>
                  in if int nv < 2 then Inr ([TooFewUnique (int nv)], tri1)
                     else
                       (case decode_verts base n mem' [0..<nv] of
                          Inl e \<Rightarrow> Inl e
                        | Inr idx \<Rightarrow>
                            (let P = map (pt (points tri)) idx
                             in case ord_dtriangulate fuel P (replicate nv []) 0 (nv - 1) of
                                  Inl e \<Rightarrow> Inl e
                                | Inr (A, l, r) \<Rightarrow>
                                    (case convertTrisFreeAdj P idx A nv of
                                       Inl e \<Rightarrow> Inl e
                                     | Inr ts \<Rightarrow>
                                         Inr ([], tri1\<lparr>triangles :=
                                                    concat (map (\<lambda>(a, b, c). [int a, int b, int c]) ts),
                                                  ntriangles := int (length ts)\<rparr>))))))"


section \<open>Auxiliary notions for the proofs\<close>

text \<open>The area the tessellator assigns to the cell \<open>(x, y)\<close>: zero when a corner is
  negative (or a corner load fails).\<close>

definition cell_value :: "int list \<Rightarrow> real \<Rightarrow> nat \<Rightarrow> nat \<Rightarrow> nat \<Rightarrow> real" where
  "cell_value hm cw dy x y =
     (case corners hm dy x y of
        Inr (Some (h0, h1, h2, h3)) \<Rightarrow> cell_area cw h0 h1 h2 h3
      | _ \<Rightarrow> 0)"

text \<open>
  The loop invariant of the tessellator after \<open>k\<close> cells in row-major order: the first
  \<open>k\<close> entries hold the areas of their cells, the others are still zero, and the
  running total is the sum of the first \<open>k\<close> entries.
\<close>

definition tess_inv :: "int list \<Rightarrow> real \<Rightarrow> nat \<Rightarrow> nat \<Rightarrow> real list \<times> real \<Rightarrow> bool" where
  "tess_inv hm cw dy k s =
     (k \<le> length (fst s) \<and>
      (\<forall>i<k. fst s ! i = cell_value hm cw dy (i div (dy - 1)) (i mod (dy - 1))) \<and>
      (\<forall>i. k \<le> i \<and> i < length (fst s) \<longrightarrow> fst s ! i = 0) \<and>
      snd s = (\<Sum>i<k. fst s ! i))"

text \<open>Concrete grids: three by three points with every column at height 0 and a
  cleared areas array, and three by two points with an empty column in the last row.\<close>

definition grid_3x3 :: tessellated_grid where
  "grid_3x3 = \<lparr>weights = [], heightmap = [0, 0, 0, 0, 0, 0, 0, 0, 0], areas = [0, 0, 0, 0],
     dimx = 3, dimy = 3, dimz = 1, cell_width = 1,
     minx = 0, miny = 0, minz = 0, num_empty = 0, surface_area = 0, area_per_particle = 0\<rparr>"

definition grid_3x2 :: tessellated_grid where
  "grid_3x2 = \<lparr>weights = [], heightmap = [0, 0, 0, 0, -1, 0], areas = [0, 0],
     dimx = 3, dimy = 2, dimz = 1, cell_width = 1,
     minx = 0, miny = 0, minz = 0, num_empty = 1, surface_area = 0, area_per_particle = 0\<rparr>"

text \<open>
  The point indices of the vertices \<open>v[0..nverts-1]\<close> after the sort and the
  duplicate-removal pass of \<^verbatim>\<open>dtriangulate\<close> (lines 428 to 452), for \<open>n\<close> points.
\<close>

definition dedup_verts :: "int \<Rightarrow> real list \<Rightarrow> nat \<Rightarrow> error + nat list" where
  "dedup_verts base ps n =
     (case dedup_loop base ps n
             (concat (map (\<lambda>j. vert_bytes (base + 16 * int j)) (qsort_verts (pt ps) [0..<n]))) n 1 of
        Inl e \<Rightarrow> Inl e
      | Inr (mem', nv) \<Rightarrow> decode_verts base n mem' [0..<nv])"

text \<open>The structure a caller passes for the points \<open>P\<close>, with no triangles yet.\<close>

definition tri_of :: "point list \<Rightarrow> dTriangulation" where
  "tri_of P = \<lparr>points = concat (map (\<lambda>p. [fst p, snd p]) P), npoints = int (length P),
               nverts = 0, triangles = [], ntriangles = 0\<rparr>"

text \<open>Structures that still hold the triangle of an earlier call: one point, and three
  times the same point.\<close>

definition stale_tri :: dTriangulation where
  "stale_tri = \<lparr>points = [0, 0], npoints = 1, nverts = 0, triangles = [0, 1, 2], ntriangles = 1\<rparr>"

definition stale_dup_tri :: dTriangulation where
  "stale_dup_tri = \<lparr>points = [0, 0, 0, 0, 0, 0], npoints = 3, nverts = 0,
                     triangles = [0, 1, 2], ntriangles = 1\<rparr>"

text \<open>Point sets: the collinear triple and the duplicate-pruning scenario of the spec, a
  right triangle, and three sets in which two abscissae differ by \<open>2\<^sup>-\<^sup>4\<^sup>0\<close>, less than
  \<^verbatim>\<open>DTEPSILON\<close>, each listed in the order \<^verbatim>\<open>compareVerts\<close> gives it.\<close>

definition P_collinear :: "point list" where
  "P_collinear = [(0, 0), (1, 0), (2, 0)]"

definition P_dup :: "point list" where
  "P_dup = [(0, 0), (1, 0), (0, 1), (1 / 10 ^ 15, 1 / 10 ^ 15)]"

definition P_tri :: "point list" where
  "P_tri = [(0, 0), (0, 1), (1, 0)]"

definition P_near4 :: "point list" where
  "P_near4 = [(0, 3), (1 + 1 / 2 ^ 40, 2), (2 + 1 / 2 ^ 40, 0), (2, 1 / 2 ^ 39)]"

definition P_near5 :: "point list" where
  "P_near5 = [(1, 1), (1, 4), (2 + 1 / 2 ^ 40, 0), (2, 1 / 2 ^ 39), (2, 1)]"

definition P_near5' :: "point list" where
  "P_near5' = [(0, 1), (0, 2), (1 / 2 ^ 40, 4), (2 + 1 / 2 ^ 40, 0), (2, 1 / 2 ^ 39)]"

section \<open>Properties of the grid tessellator\<close>

lemma cell_area_nonneg: "0 \<le> cell_area cw h0 h1 h2 h3"
  by (simp add: cell_area_def rnorm_def Let_def split: prod.splits)

lemma cell_value_nonneg: "0 \<le> cell_value hm cw dy x y"
  by (auto simp: cell_value_def cell_area_nonneg split: sum.splits option.splits)

lemma tess_cell_inv:
  assumes inv: "tess_inv hm cw dy (x * (dy - 1) + y) s"
    and y: "y < dy - 1"
    and run: "tess_cell hm cw dy x y s = Inr s'"
  shows "tess_inv hm cw dy (Suc (x * (dy - 1) + y)) s' \<and> length (fst s') = length (fst s)"
proof -
  define n where "n = dy - 1"
  define k where "k = x * n + y"
  have dy: "dy = Suc n" using y by (simp add: n_def)
  have kd: "k div n = x" and km: "k mod n = y"
    using y by (simp_all add: k_def n_def)
  obtain ar tot where s: "s = (ar, tot)" by (cases s)
  from inv have kl: "k \<le> length ar"
    and low: "\<forall>i<k. ar ! i = cell_value hm cw dy (i div n) (i mod n)"
    and high: "\<forall>i. k \<le> i \<and> i < length ar \<longrightarrow> ar ! i = 0"
    and tot: "tot = (\<Sum>i<k. ar ! i)"
    by (simp_all add: tess_inv_def s k_def n_def)
  show ?thesis
  proof (cases "corners hm dy x y")
    case (Inl e)
    with run show ?thesis by (simp add: tess_cell_def Let_def)
  next
    case (Inr c)
    show ?thesis
    proof (cases c)
      case None
      with Inr run s have st: "x * dy + y < length ar" and s': "s' = (ar[x * dy + y := 0], tot)"
        by (auto simp: tess_cell_def Let_def store_def split: if_splits)
      have idx: "x * dy + y = k + x" by (simp add: dy k_def)
      have cv: "cell_value hm cw dy x y = 0" using Inr None by (simp add: cell_value_def)
      have 1: "Suc k \<le> length ar" using st idx by simp
      have 2: "\<forall>i<Suc k. (ar[k + x := 0]) ! i = cell_value hm cw dy (i div n) (i mod n)"
      proof (intro allI impI)
        fix i assume i: "i < Suc k"
        show "(ar[k + x := 0]) ! i = cell_value hm cw dy (i div n) (i mod n)"
        proof (cases "i = k")
          case True
          have "(ar[k + x := 0]) ! k = 0"
            using high 1 by (cases "x = 0") auto
          then show ?thesis using True cv kd km by simp
        next
          case False
          then have "i < k" using i by simp
          then show ?thesis using low by simp
        qed
      qed
      have 3: "\<forall>i. Suc k \<le> i \<and> i < length ar \<longrightarrow> (ar[k + x := 0]) ! i = 0"
      proof (intro allI impI)
        fix i assume i: "Suc k \<le> i \<and> i < length ar"
        then have "ar ! i = 0" using high by simp
        then show "(ar[k + x := 0]) ! i = 0" using i by (cases "i = k + x") simp_all
      qed
      have "(\<Sum>i<Suc k. (ar[k + x := 0]) ! i) = (\<Sum>i<k. (ar[k + x := 0]) ! i) + (ar[k + x := 0]) ! k"
        by simp
      also have "(ar[k + x := 0]) ! k = 0" using high 1 by (cases "x = 0") auto
      also have "(\<Sum>i<k. (ar[k + x := 0]) ! i) = (\<Sum>i<k. ar ! i)"
        by (rule sum.cong) auto
      finally have 4: "tot = (\<Sum>i<Suc k. (ar[k + x := 0]) ! i)" using tot by simp
      have "tess_inv hm cw dy (Suc k) (ar[k + x := 0], tot)"
        unfolding tess_inv_def n_def[symmetric] fst_conv snd_conv using 1 2 3 4 by simp
      then show ?thesis unfolding k_def n_def s s' idx by simp
    next
      case (Some hs)
      obtain h0 h1 h2 h3 where hs: "hs = (h0, h1, h2, h3)" by (cases hs)
      define a where "a = cell_area cw h0 h1 h2 h3"
      from Inr Some hs run s have st: "k < length ar" and s': "s' = (ar[k := a], tot + a)"
        by (auto simp: tess_cell_def Let_def store_def a_def k_def n_def split: if_splits)
      have cv: "cell_value hm cw dy x y = a" using Inr Some hs by (simp add: cell_value_def a_def)
      have 2: "\<forall>i<Suc k. (ar[k := a]) ! i = cell_value hm cw dy (i div n) (i mod n)"
        using low st cv kd km by (auto simp: nth_list_update less_Suc_eq)
      have 3: "\<forall>i. Suc k \<le> i \<and> i < length ar \<longrightarrow> (ar[k := a]) ! i = 0"
        using high by (auto simp: nth_list_update)
      have "(\<Sum>i<Suc k. (ar[k := a]) ! i) = (\<Sum>i<k. (ar[k := a]) ! i) + (ar[k := a]) ! k"
        by simp
      also have "(ar[k := a]) ! k = a" using st by simp
      also have "(\<Sum>i<k. (ar[k := a]) ! i) = (\<Sum>i<k. ar ! i)"
        by (rule sum.cong) auto
      finally have 4: "tot + a = (\<Sum>i<Suc k. (ar[k := a]) ! i)" using tot by simp
      have "tess_inv hm cw dy (Suc k) (ar[k := a], tot + a)"
        unfolding tess_inv_def n_def[symmetric] fst_conv snd_conv using st 2 3 4 by simp
      then show ?thesis unfolding k_def n_def s s' by simp
    qed
  qed
qed

lemma tess_row_inv:
  assumes "tess_inv hm cw dy (x * (dy - 1) + y0) s"
    and "y0 \<le> dy - 1"
    and "tess_row hm cw dy x [y0..<dy - 1] s = Inr s'"
  shows "tess_inv hm cw dy (Suc x * (dy - 1)) s' \<and> length (fst s') = length (fst s)"
  using assms
proof (induction "dy - 1 - y0" arbitrary: y0 s)
  case 0
  then have "y0 = dy - 1" by simp
  with "0.prems" show ?case by (simp add: add.commute)
next
  case (Suc m)
  then have y: "y0 < dy - 1" by simp
  then have up: "[y0..<dy - 1] = y0 # [Suc y0..<dy - 1]" by (simp add: upt_conv_Cons)
  from Suc.prems(3)[unfolded up] obtain s1 where c: "tess_cell hm cw dy x y0 s = Inr s1"
    and r: "tess_row hm cw dy x [Suc y0..<dy - 1] s1 = Inr s'"
    by (cases "tess_cell hm cw dy x y0 s") simp_all
  from tess_cell_inv[OF Suc.prems(1) y c]
  have i1: "tess_inv hm cw dy (x * (dy - 1) + Suc y0) s1" and l1: "length (fst s1) = length (fst s)"
    by simp_all
  have "m = dy - 1 - Suc y0" using Suc.hyps(2) by simp
  from Suc.hyps(1)[OF this i1 _ r] y l1 show ?case by simp
qed

lemma tess_rows_inv:
  assumes "tess_inv hm cw dy (x0 * (dy - 1)) s"
    and "x0 \<le> dx"
    and "tess_rows hm cw dy [x0..<dx] s = Inr s'"
  shows "tess_inv hm cw dy (dx * (dy - 1)) s' \<and> length (fst s') = length (fst s)"
  using assms
proof (induction "dx - x0" arbitrary: x0 s)
  case 0
  then have "x0 = dx" by simp
  with "0.prems" show ?case by simp
next
  case (Suc m)
  then have x: "x0 < dx" by simp
  then have up: "[x0..<dx] = x0 # [Suc x0..<dx]" by (simp add: upt_conv_Cons)
  from Suc.prems(3)[unfolded up] obtain s1 where c: "tess_row hm cw dy x0 [0..<dy - 1] s = Inr s1"
    and r: "tess_rows hm cw dy [Suc x0..<dx] s1 = Inr s'"
    by (cases "tess_row hm cw dy x0 [0..<dy - 1] s") simp_all
  have "tess_inv hm cw dy (x0 * (dy - 1) + 0) s" using Suc.prems(1) by simp
  from tess_row_inv[OF this _ c]
  have i1: "tess_inv hm cw dy (Suc x0 * (dy - 1)) s1" and l1: "length (fst s1) = length (fst s)"
    by simp_all
  have "m = dx - Suc x0" using Suc.hyps(2) by simp
  from Suc.hyps(1)[OF this i1 _ r] x l1 show ?case by simp
qed


lemma tess_inv_init:
  assumes "list_all (\<lambda>a. a = 0) ar"
  shows "tess_inv hm cw dy 0 (ar, 0)"
  using assms by (simp add: tess_inv_def list_all_length)

lemma corners_in_range:
  assumes "length hm = dx * dy" "Suc x < dx" "Suc y < dy"
  shows "corners hm dy x y =
     (if hm ! (x * dy + y) < 0 \<or> hm ! (x * dy + y + 1) < 0 \<or>
         hm ! ((x + 1) * dy + y) < 0 \<or> hm ! ((x + 1) * dy + y + 1) < 0
      then Inr None
      else Inr (Some (hm ! (x * dy + y), hm ! (x * dy + y + 1),
                      hm ! ((x + 1) * dy + y), hm ! ((x + 1) * dy + y + 1))))"
proof -
  have "(x + 1) * dy + y + 1 < dx * dy"
  proof -
    have "(x + 1) * dy + (y + 1) < (x + 1) * dy + dy" using assms(3) by simp
    also have "\<dots> = (x + 2) * dy" by simp
    also have "\<dots> \<le> dx * dy" using assms(2) by (intro mult_le_mono1) simp
    finally show ?thesis by simp
  qed
  moreover have "x * dy + y \<le> (x + 1) * dy + y + 1" "x * dy + y + 1 \<le> (x + 1) * dy + y + 1"
    "(x + 1) * dy + y \<le> (x + 1) * dy + y + 1" by simp_all
  ultimately have "x * dy + y < length hm" "x * dy + y + 1 < length hm"
    "(x + 1) * dy + y < length hm" "(x + 1) * dy + y + 1 < length hm"
    using assms(1) by linarith+
  then show ?thesis by (simp add: corners_def load_def)
qed

text \<open>
  What the tessellator does establish, under two assumptions on the run: the areas array
  is cleared on entry, as \<^verbatim>\<open>construct_grid\<close> allocates it, and no store leaves the
  array. Then the array keeps its \<open>(dimx - 1) * (dimy - 1)\<close> entries, every entry is
  nonnegative, the entry of every cell with a negative corner is zero, and
  \<^verbatim>\<open>surface_area\<close> is the sum of all entries. The zero entries are those of the
  cleared array: the store of such a cell goes to the index \<open>x * dimy + y\<close>.
\<close>

lemma tessellate_grid_cleared:
  assumes run: "tessellate_grid g = Inr g'"
    and alloc: "areas g = snew ((dimx g - 1) * (dimy g - 1))"
    and hm: "length (heightmap g) = nat (dimx g) * nat (dimy g)"
  shows "length (areas g') = nat ((dimx g - 1) * (dimy g - 1)) \<and>
         (\<forall>i < length (areas g'). 0 \<le> areas g' ! i) \<and>
         (\<forall>x y. int x < dimx g - 1 \<and> int y < dimy g - 1 \<and>
           (heightmap g ! (x * nat (dimy g) + y) < 0 \<or>
            heightmap g ! (x * nat (dimy g) + y + 1) < 0 \<or>
            heightmap g ! ((x + 1) * nat (dimy g) + y) < 0 \<or>
            heightmap g ! ((x + 1) * nat (dimy g) + y + 1) < 0)
           \<longrightarrow> areas g' ! (x * (nat (dimy g) - 1) + y) = 0) \<and>
         surface_area g' = sum_list (areas g')"
proof -
  define dy where "dy = nat (dimy g)"
  define dx where "dx = nat (dimx g)"
  obtain ar tot where rows: "tess_rows (heightmap g) (cell_width g) dy [0..<dx - 1] (areas g, 0) = Inr (ar, tot)"
    and g': "g' = g\<lparr>areas := ar, surface_area := tot\<rparr>"
    using run by (auto simp: tessellate_grid_def dy_def dx_def split: sum.splits)
  have "list_all (\<lambda>a. a = 0) (areas g)" by (simp add: alloc snew_def list_all_length)
  then have "tess_inv (heightmap g) (cell_width g) dy (0 * (dy - 1)) (areas g, 0)"
    by (simp add: tess_inv_init)
  from tess_rows_inv[OF this _ rows]
  have inv: "tess_inv (heightmap g) (cell_width g) dy ((dx - 1) * (dy - 1)) (ar, tot)"
    and len: "length ar = length (areas g)" by simp_all
  have L: "length (areas g') = nat ((dimx g - 1) * (dimy g - 1))"
    using len by (simp add: g' alloc snew_def)
  have N: "\<forall>i < length (areas g'). 0 \<le> areas g' ! i"
  proof (intro allI impI)
    fix i assume i: "i < length (areas g')"
    show "0 \<le> areas g' ! i"
    proof (cases "i < (dx - 1) * (dy - 1)")
      case True
      then have "ar ! i = cell_value (heightmap g) (cell_width g) dy (i div (dy - 1)) (i mod (dy - 1))"
        using inv unfolding tess_inv_def by simp
      then show ?thesis using cell_value_nonneg by (simp add: g')
    next
      case False
      then have "ar ! i = 0" using inv i unfolding tess_inv_def by (simp add: g')
      then show ?thesis by (simp add: g')
    qed
  qed
  have Z: "\<forall>x y. int x < dimx g - 1 \<and> int y < dimy g - 1 \<and>
           (heightmap g ! (x * nat (dimy g) + y) < 0 \<or>
            heightmap g ! (x * nat (dimy g) + y + 1) < 0 \<or>
            heightmap g ! ((x + 1) * nat (dimy g) + y) < 0 \<or>
            heightmap g ! ((x + 1) * nat (dimy g) + y + 1) < 0)
           \<longrightarrow> areas g' ! (x * (nat (dimy g) - 1) + y) = 0"
  proof (intro allI impI, elim conjE)
    fix x y
    assume x: "int x < dimx g - 1" and y: "int y < dimy g - 1"
      and neg: "heightmap g ! (x * nat (dimy g) + y) < 0 \<or>
            heightmap g ! (x * nat (dimy g) + y + 1) < 0 \<or>
            heightmap g ! ((x + 1) * nat (dimy g) + y) < 0 \<or>
            heightmap g ! ((x + 1) * nat (dimy g) + y + 1) < 0"
    have x': "Suc x < dx" and y': "Suc y < dy" using x y by (simp_all add: dx_def dy_def)
    define k where "k = x * (dy - 1) + y"
    have "k < (dx - 1) * (dy - 1)"
    proof -
      have "k < x * (dy - 1) + (dy - 1)" using y' by (simp add: k_def)
      also have "\<dots> = (x + 1) * (dy - 1)" by simp
      also have "\<dots> \<le> (dx - 1) * (dy - 1)" using x' by (intro mult_le_mono1) simp
      finally show ?thesis .
    qed
    moreover have "k div (dy - 1) = x" "k mod (dy - 1) = y" using y' by (simp_all add: k_def)
    ultimately have "ar ! k = cell_value (heightmap g) (cell_width g) dy x y"
      using inv by (auto simp: tess_inv_def)
    also have "\<dots> = 0"
      using corners_in_range[OF _ x' y', of "heightmap g"] hm neg
      by (simp add: cell_value_def dx_def dy_def)
    finally show "areas g' ! (x * (nat (dimy g) - 1) + y) = 0"
      by (simp add: g' k_def dy_def)
  qed
  have "tot = (\<Sum>i<(dx - 1) * (dy - 1). ar ! i)" using inv by (simp add: tess_inv_def)
  also have "\<dots> = (\<Sum>i<length ar. ar ! i)"
  proof (rule sum.mono_neutral_left)
    show "{..<(dx - 1) * (dy - 1)} \<subseteq> {..<length ar}" using inv by (auto simp: tess_inv_def)
    show "\<forall>i\<in>{..<length ar} - {..<(dx - 1) * (dy - 1)}. ar ! i = 0"
      using inv by (auto simp: tess_inv_def)
  qed simp
  also have "\<dots> = sum_list ar" by (simp add: sum_list_sum_nth atLeast0LessThan)
  finally have S: "surface_area g' = sum_list (areas g')" by (simp add: g')
  from L N Z S show ?thesis by blast
qed

text \<open>
  Claim C4. The store of a cell with a negative corner goes to \<open>x * dimy + y\<close>, not
  to the entry \<open>x * (dimy - 1) + y\<close> of the cell, so the entry of such a cell is not
  set. On the grid of three by three points with every column at height 0,
  \<^verbatim>\<open>tessellate_grid\<close> leaves the areas \<open>[1, 1, 1, 1]\<close> and \<open>surface_area = 4\<close>.
  Called again on that grid once the column \<open>(2, 0)\<close> is empty, it stores the zero of
  the cell \<open>(1, 0)\<close> at index 3, where the cell \<open>(1, 1)\<close> then stores its area: the
  entry of the cell \<open>(1, 0)\<close>, at index 2, is still 1, and \<open>surface_area = 3\<close> while
  the entries sum to 4. On the cleared grid with the column \<open>(2, 2)\<close> empty, the zero of
  the cell \<open>(1, 1)\<close> is stored at index 4 of an array of 4 entries.
\<close>

theorem tessellate_grid_stale_entry:
  "tessellate_grid grid_3x3 = Inr (grid_3x3\<lparr>areas := [1, 1, 1, 1], surface_area := 4\<rparr>) \<and>
   tessellate_grid (grid_3x3\<lparr>heightmap := [0, 0, 0, 0, 0, 0, -1, 0, 0],
                             areas := [1, 1, 1, 1], surface_area := 4\<rparr>) =
     Inr (grid_3x3\<lparr>heightmap := [0, 0, 0, 0, 0, 0, -1, 0, 0],
                   areas := [1, 1, 1, 1], surface_area := 3\<rparr>) \<and>
   [0, 0, 0, 0, 0, 0, -1, 0, 0 :: int] ! ((1 + 1) * 3 + 0) < 0 \<and>
   [1, 1, 1, 1 :: real] ! (1 * (3 - 1) + 0) = 1 \<and>
   sum_list [1, 1, 1, 1 :: real] = 4 \<and>
   tessellate_grid (grid_3x3\<lparr>heightmap := [0, 0, 0, 0, 0, 0, 0, 0, -1]\<rparr>) = Inl OutOfBounds"
  by (simp add: tessellate_grid_def grid_3x3_def tess_cell_def corners_def load_def store_def
      cell_area_def rvec_sub_def cprod_def rnorm_def Let_def upt_conv_Cons)

text \<open>
  Claim C5. The store of a cell with a negative corner uses the index \<open>x * dimy + y\<close>,
  not \<open>x * (dimy - 1) + y\<close>. In the grid of three by two points below, the cell
  \<open>(1, 0)\<close> has an empty corner and stores at index 2 of an areas array of 2 entries.
\<close>

theorem tessellate_grid_store_out_of_bounds:
  "dimx grid_3x2 \<ge> 2 \<and> dimy grid_3x2 \<ge> 2 \<and>
   length (areas grid_3x2) = nat ((dimx grid_3x2 - 1) * (dimy grid_3x2 - 1)) \<and>
   tessellate_grid grid_3x2 = Inl OutOfBounds"
  by (simp add: tessellate_grid_def grid_3x2_def tess_cell_def corners_def load_def store_def
      cell_area_def rvec_sub_def cprod_def rnorm_def Let_def upt_conv_Cons)

text \<open>
  Claim C6. The running maxima start at \<^verbatim>\<open>FLT_MIN\<close>, the least positive normal
  number, so for positions that are all negative they stay there. One frame with one atom
  at \<open>(-5, -5, -5)\<close> and cell width 1 gives \<open>dimx = dimy = dimz = 7\<close>, where the
  componentwise maximum and minimum coincide and the claimed dimension is
  \<open>floor (0 / 1) + 2 = 2\<close>.
\<close>

lemma scan_traj_single:
  "scan_traj [[(-5, -5, -5)]] (Suc 0) (Suc 0) =
   \<lparr>lo_x = -5, lo_y = -5, lo_z = -5, hi_x = FLT_MIN, hi_y = FLT_MIN, hi_z = FLT_MIN\<rparr>"
  by (simp add: scan_traj_def scan_atom_def init_extent_def FLT_MAX_def FLT_MIN_def)

lemma floor_FLT_MIN_plus: "\<lfloor>FLT_MIN + 5\<rfloor> = 5"
  unfolding FLT_MIN_def by (simp add: floor_eq_iff)

lemma grid_dim_FLT_MIN: "grid_dim FLT_MIN (-5) 1 = Inr 7"
  using floor_FLT_MIN_plus by (simp add: grid_dim_def int_cast_def FLT_MIN_def)

theorem construct_grid_negative_positions:
  "construct_grid [[(-5, -5, -5)]] 1 1 1 g =
   Inr (g\<lparr>weights := snew 343, heightmap := snew 49, areas := snew 36,
          dimx := 7, dimy := 7, dimz := 7, cell_width := 1,
          minx := -5, miny := -5, minz := -5\<rparr>)"
  using scan_traj_single grid_dim_FLT_MIN
  by (simp add: construct_grid_def traj_shape_def Let_def)


section \<open>Properties of the Delaunay triangulator\<close>

subsection \<open>The collinear triple\<close>

text \<open>
  Claim C10. For the points \<open>(0,0), (1,0), (2,0)\<close> the three-point base case leaves
  the adjacency lists \<open>[1]\<close>, \<open>[0, 2]\<close> and \<open>[1]\<close>: the edges \<open>(0,1)\<close> and
  \<open>(1,2)\<close> are present and the edge \<open>(0,2)\<close> is absent; and \<^verbatim>\<open>dtriangulate\<close>
  returns no diagnostic, three vertices and no triangle. No loop of the merge is entered,
  so the result holds with fuel 0.
\<close>

theorem collinear_triple:
  "ord_dtriangulate 0 P_collinear (replicate 3 []) 0 2 = Inr ([[1], [0, 2], [1]], Some 0, Some 2) \<and>
   (1::nat) \<in> set ([[1], [0, 2], [1]] ! 0) \<and> (0::nat) \<in> set ([[1], [0, 2], [1]] ! 1) \<and>
   (2::nat) \<in> set ([[1], [0, 2], [1]] ! 1) \<and> (1::nat) \<in> set ([[1], [0, 2], [1]] ! 2) \<and>
   (2::nat) \<notin> set ([[1], [0, 2], [1]] ! 0) \<and> (0::nat) \<notin> set ([[1], [0, 2], [1]] ! 2) \<and>
   dtriangulate 0 4096 (tri_of P_collinear) =
     Inr ([], (tri_of P_collinear)\<lparr>nverts := 3, triangles := [], ntriangles := 0\<rparr>)"
  by code_simp

subsection \<open>Too few points\<close>

lemma dtriangulate_unfold:
  assumes "2 \<le> npoints tri"
  shows "dtriangulate fuel base tri =
     (if length (points tri) < 2 * nat (npoints tri) then Inl OutOfBounds
      else case dedup_loop base (points tri) (nat (npoints tri))
                  (concat (map (\<lambda>j. vert_bytes (base + 16 * int j))
                     (qsort_verts (pt (points tri)) [0..<nat (npoints tri)])))
                  (nat (npoints tri)) 1 of
             Inl e \<Rightarrow> Inl e
           | Inr (mem', nv) \<Rightarrow>
               if int nv < 2 then Inr ([TooFewUnique (int nv)], tri\<lparr>nverts := int nv\<rparr>)
               else
                 (case decode_verts base (nat (npoints tri)) mem' [0..<nv] of
                    Inl e \<Rightarrow> Inl e
                  | Inr idx \<Rightarrow>
                      (case ord_dtriangulate fuel (map (pt (points tri)) idx) (replicate nv []) 0 (nv - 1) of
                         Inl e \<Rightarrow> Inl e
                       | Inr (A, l, r) \<Rightarrow>
                           (case convertTrisFreeAdj (map (pt (points tri)) idx) idx A nv of
                              Inl e \<Rightarrow> Inl e
                            | Inr ts \<Rightarrow>
                                Inr ([], tri\<lparr>nverts := int nv,
                                           triangles := concat (map (\<lambda>(a, b, c). [int a, int b, int c]) ts),
                                           ntriangles := int (length ts)\<rparr>)))))"
  using assms unfolding dtriangulate_def Let_def by simp


text \<open>
  Claim C3, as stated, fails: called with one point and a structure that still holds a
  triangle, \<^verbatim>\<open>dtriangulate\<close> reports the diagnostic and returns the structure as it
  was, with \<open>ntriangles = 1\<close>.
\<close>

theorem dtriangulate_stale_counterexample:
  "npoints stale_tri < 2 \<and>
   dtriangulate 0 4096 stale_tri = Inr ([TooFewPoints 1], stale_tri) \<and>
   ntriangles stale_tri = 1 \<and> triangles stale_tri = [0, 1, 2]"
  by (simp add: dtriangulate_def stale_tri_def)

text \<open>
  Claim C3, amended. Called with fewer than 2 points, \<^verbatim>\<open>dtriangulate\<close> reports the
  diagnostic and returns the structure unchanged. When it returns with fewer than 2
  vertices left after duplicate removal, it has reported the diagnostic and changed
  \<open>nverts\<close> only. In both cases \<open>ntriangles\<close> and the triangle array are those the
  caller passed.
\<close>

theorem dtriangulate_too_few:
  "(npoints tri < 2 \<longrightarrow> dtriangulate fuel base tri = Inr ([TooFewPoints (npoints tri)], tri)) \<and>
   (2 \<le> npoints tri \<and> dtriangulate fuel base tri = Inr (ds, tri') \<and> nverts tri' < 2 \<longrightarrow>
      ds = [TooFewUnique (nverts tri')] \<and> tri' = tri\<lparr>nverts := nverts tri'\<rparr> \<and>
      triangles tri' = triangles tri \<and> ntriangles tri' = ntriangles tri)"
proof (intro conjI impI)
  assume "npoints tri < 2"
  then show "dtriangulate fuel base tri = Inr ([TooFewPoints (npoints tri)], tri)"
    by (simp add: dtriangulate_def)
next
  assume a: "2 \<le> npoints tri \<and> dtriangulate fuel base tri = Inr (ds, tri') \<and> nverts tri' < 2"
  then have np: "2 \<le> npoints tri" and run: "dtriangulate fuel base tri = Inr (ds, tri')"
    and lt: "nverts tri' < 2" by simp_all
  note u = dtriangulate_unfold[OF np, of fuel base]
  from run u have len: "\<not> length (points tri) < 2 * nat (npoints tri)"
    by (auto split: if_splits)
  from run u len obtain mem' nv where
    dl: "dedup_loop base (points tri) (nat (npoints tri))
                  (concat (map (\<lambda>j. vert_bytes (base + 16 * int j))
                     (qsort_verts (pt (points tri)) [0..<nat (npoints tri)])))
                  (nat (npoints tri)) 1 = Inr (mem', nv)"
    by (auto split: sum.splits)
  have r: "ds = [TooFewUnique (nverts tri')] \<and> tri' = tri\<lparr>nverts := nverts tri'\<rparr>"
  proof (cases "int nv < 2")
    case True
    with run u len dl have "ds = [TooFewUnique (int nv)]" and "tri' = tri\<lparr>nverts := int nv\<rparr>"
      by simp_all
    then show ?thesis by simp
  next
    case False
    with run u len dl have "nverts tri' = int nv"
      by (auto split: sum.splits)
    with False lt show ?thesis by simp
  qed
  show "ds = [TooFewUnique (nverts tri')]" using r by simp
  show "tri' = tri\<lparr>nverts := nverts tri'\<rparr>" using r by simp
  have "triangles (tri\<lparr>nverts := nverts tri'\<rparr>) = triangles tri" by simp
  then show "triangles tri' = triangles tri" using r by metis
  have "ntriangles (tri\<lparr>nverts := nverts tri'\<rparr>) = ntriangles tri" by simp
  then show "ntriangles tri' = ntriangles tri" using r by metis
qed

lemma dtriangulate_stale_dup:
  "dtriangulate 0 4096 stale_dup_tri = Inr ([TooFewUnique 1], stale_dup_tri\<lparr>nverts := 1\<rparr>)"
  by code_simp

theorem dtriangulate_too_few_witness:
  "npoints stale_tri < 2 \<and>
   dtriangulate 0 4096 stale_tri = Inr ([TooFewPoints (npoints stale_tri)], stale_tri) \<and>
   2 \<le> npoints stale_dup_tri \<and>
   dtriangulate 0 4096 stale_dup_tri = Inr ([TooFewUnique 1], stale_dup_tri\<lparr>nverts := 1\<rparr>) \<and>
   nverts (stale_dup_tri\<lparr>nverts := 1\<rparr>) < 2 \<and>
   triangles (stale_dup_tri\<lparr>nverts := 1\<rparr>) = triangles stale_dup_tri \<and>
   ntriangles (stale_dup_tri\<lparr>nverts := 1\<rparr>) = ntriangles stale_dup_tri"
proof -
  have 1: "npoints stale_tri < 2" by (simp add: stale_tri_def)
  have 2: "2 \<le> npoints stale_dup_tri" by (simp add: stale_dup_tri_def)
  have 3: "nverts (stale_dup_tri\<lparr>nverts := 1\<rparr>) < 2" by simp
  from dtriangulate_too_few[of stale_tri 0 4096] 1
  have 4: "dtriangulate 0 4096 stale_tri = Inr ([TooFewPoints (npoints stale_tri)], stale_tri)"
    by blast
  from dtriangulate_too_few[of stale_dup_tri 0 4096 "[TooFewUnique 1]" "stale_dup_tri\<lparr>nverts := 1\<rparr>"]
    2 3 dtriangulate_stale_dup
  have 5: "triangles (stale_dup_tri\<lparr>nverts := 1\<rparr>) = triangles stale_dup_tri \<and>
           ntriangles (stale_dup_tri\<lparr>nverts := 1\<rparr>) = ntriangles stale_dup_tri"
    by blast
  from 1 2 3 4 5 dtriangulate_stale_dup show ?thesis by blast
qed

subsection \<open>Duplicate removal\<close>

text \<open>
  Claim C2. For the duplicate-pruning scenario of the spec, the points
  \<open>(0,0), (1,0), (0,1), (10\<^sup>-\<^sup>1\<^sup>5, 10\<^sup>-\<^sup>1\<^sup>5)\<close>, the sort gives the order 0, 3, 2, 1.
  The pass removes the duplicate at position 1 by moving 4 bytes, which overwrites the
  low bytes of that one pointer with those of the next and shifts nothing; the point
  \<open>(0,1)\<close> is then found twice, and the second removal moves 2 bytes. What is left is
  \<open>nverts = 2\<close> with the points 0 and 2: the unique point \<open>(1,0)\<close> is gone, and
  \<^verbatim>\<open>dtriangulate\<close> returns no triangle.
\<close>

theorem dedup_loses_unique_point:
  "qsort_verts (pt (points (tri_of P_dup))) [0..<4] = [0, 3, 2, 1] \<and>
   dedup_verts 4096 (points (tri_of P_dup)) 4 = Inr [0, 2] \<and>
   dtriangulate 20 4096 (tri_of P_dup) =
     Inr ([], (tri_of P_dup)\<lparr>nverts := 2, triangles := [], ntriangles := 0\<rparr>)"
  by code_simp

subsection \<open>Insertion of a neighbour that is present\<close>

text \<open>
  Claim C7. For the right triangle \<open>(0,0), (0,1), (1,0)\<close>, inserting vertex 2 into the
  ring \<open>[1]\<close> of vertex 0 gives \<open>[2, 1]\<close>; inserting vertex 2 again gives
  \<open>[2, 2, 1]\<close>. The test for a duplicate is made in the second branch only, and there
  only against the node at which the scan stops.
\<close>

theorem insertNode_twice:
  "insertNode P_tri [[1], [0], []] 0 2 = [[2, 1], [0], []] \<and>
   (2::nat) \<in> set ([[2, 1], [0], []] ! 0) \<and>
   insertNode P_tri [[2, 1], [0], []] 0 2 = [[2, 2, 1], [0], []]"
  by code_simp

subsection \<open>Abscissae closer than the tolerance\<close>

text \<open>
  \<^verbatim>\<open>compareVerts\<close> orders two vertices whose abscissae differ by less than
  \<^verbatim>\<open>DTEPSILON\<close> by their ordinates, so the sorted array need not be in lexicographic
  order, which \<^verbatim>\<open>ord_dtriangulate\<close> assumes. In the point sets below the vertex
  \<open>(2 + 2\<^sup>-\<^sup>4\<^sup>0, 0)\<close> is sorted before \<open>(2, 2\<^sup>-\<^sup>3\<^sup>9)\<close>.
\<close>

text \<open>
  Claim C1. For \<open>P_near5\<close>, \<^verbatim>\<open>dtriangulate\<close> returns the triangles \<open>(0, 2, 1)\<close> and
  \<open>(2, 4, 3)\<close>. The first is counterclockwise, and vertex 4, the point \<open>(2, 1)\<close>, lies
  strictly inside its circumcircle.
\<close>

theorem dtriangulate_not_delaunay:
  "dtriangulate 20 4096 (tri_of P_near5) =
     Inr ([], (tri_of P_near5)\<lparr>nverts := 5, triangles := [0, 2, 1, 2, 4, 3], ntriangles := 2\<rparr>) \<and>
   orient2d (P_near5 ! 0) (P_near5 ! 2) (P_near5 ! 1) > 0 \<and>
   incircle (P_near5 ! 0) (P_near5 ! 2) (P_near5 ! 1) (P_near5 ! 4) > 0"
  by code_simp

text \<open>
  Claim C8. For \<open>P_near5'\<close>, \<^verbatim>\<open>dtriangulate\<close> returns the triples \<open>(0, 3, 4)\<close>,
  \<open>(2, 3, 3)\<close> and \<open>(2, 3, 4)\<close>. The second names vertex 3 twice, and
  \<^verbatim>\<open>orient2d\<close> of its points is zero.
\<close>

theorem dtriangulate_degenerate_triple:
  "dtriangulate 20 4096 (tri_of P_near5') =
     Inr ([], (tri_of P_near5')\<lparr>nverts := 5, triangles := [0, 3, 4, 2, 3, 3, 2, 3, 4],
                               ntriangles := 3\<rparr>) \<and>
   orient2d (P_near5' ! 2) (P_near5' ! 3) (P_near5' ! 3) = 0"
  by code_simp

text \<open>
  Claim C9. For \<open>P_near4\<close>, the adjacency \<^verbatim>\<open>ord_dtriangulate\<close> returns has vertex 0
  in the list of vertex 1 and not vertex 1 in the list of vertex 0. The merge connects
  vertices 0 and 1 a second time, which inserts vertex 0 twice into the list of vertex 1
  (the state \<open>[[2, 3, 1], [0, 0, 2, 3], [3, 1, 0], [0, 0, 2, 1]]\<close>), and the
  \<^verbatim>\<open>cutVerts\<close> of vertices 1 and 0 that follows removes one of the two.
\<close>

theorem ord_dtriangulate_asymmetric:
  "ord_dtriangulate 20 P_near4 (replicate 4 []) 0 3 =
     Inr ([[2, 3], [0, 2, 3], [3, 1, 3, 1, 0], [0, 0, 2, 1]], Some 0, Some 3) \<and>
   cutVerts [[2, 3, 1], [0, 0, 2, 3], [3, 1, 0], [0, 0, 2, 1]] (Some 1) (Some 0) =
     [[2, 3], [0, 2, 3], [3, 1, 0], [0, 0, 2, 1]] \<and>
   (0::nat) \<in> set ([[2, 3], [0, 2, 3], [3, 1, 0], [0, 0, 2, 1]] ! 1) \<and>
   (1::nat) \<notin> set ([[2, 3], [0, 2, 3], [3, 1, 0], [0, 0, 2, 1]] ! 0)"
  by code_simp

end
